theory Spec2Isabelle
  imports Complex_Main "HOL-Library.Multiset" "HOL-Library.Char_ord" "HOL-Library.List_Lexorder"
begin

section \<open>The SEA trade dashboard (\<^verbatim>\<open>app.py\<close>): data model\<close>

text \<open>
  The dashboard loads trade records into one pandas table \<^verbatim>\<open>sea_data\<close> and recomputes every
  view from it and the two filter inputs (country, year). The table is a list of rows in file
  order. The callbacks are modelled on the loaded table with its columns typed as the
  dashboard uses them: labels are strings, the year is an integer, amounts are finite
  numbers. An amount is a real number: the value of the 64-bit float or integer the table
  holds. The KPI boxes truncate their sums to integers, where the last bit of a sum can
  change the digit shown, so their additions are modelled as 64-bit operations: exact when
  the result is representable, a parameter of the model otherwise. The sums behind the
  charts and the added column of the table are sums of real numbers; they stand for the
  64-bit values the dashboard computes up to the rounding of those. What a callback hands
  to the plotting library (the table behind a figure) is the value of the model; the drawing
  itself is not modelled.
\<close>

record trade_record =
  country :: string
  country_code :: string
  partner_name :: string
  partner_name_code :: string
  year :: int
  export_USD :: real
  import_USD :: real
  trade_balance_USD :: real

type_synonym dataset = "trade_record list"

text \<open>The Python exceptions that the callbacks and the year settings can raise.\<close>

datatype py_error = ValueError | OverflowError

subsection \<open>Python's \<^verbatim>\<open>int(v)\<close>, \<^verbatim>\<open>str(n)\<close> and the format \<^verbatim>\<open>{n:,}\<close>\<close>

text \<open>\<^verbatim>\<open>int(v)\<close> on a float truncates toward zero.\<close>

definition py_int :: "real \<Rightarrow> int" where
  "py_int v = (if 0 \<le> v then \<lfloor>v\<rfloor> else \<lceil>v\<rceil>)"

function dec_digits :: "nat \<Rightarrow> string" where
  "dec_digits n =
     (if n < 10 then [''0123456789'' ! n]
      else dec_digits (n div 10) @ [''0123456789'' ! (n mod 10)])"
  by pat_completeness auto
termination
  by (relation "measure (\<lambda>n. n)") auto

declare dec_digits.simps [simp del]

definition str_int :: "int \<Rightarrow> string" where
  "str_int n = (if n < 0 then CHR ''-'' # dec_digits (nat (- n)) else dec_digits (nat n))"

text \<open>Groups of three digits, counted from the right; the argument is the reversed digit string.\<close>

fun group3 :: "string \<Rightarrow> string" where
  "group3 (a # b # c # d # r) = a # b # c # CHR '','' # group3 (d # r)"
| "group3 s = s"

definition thousands :: "int \<Rightarrow> string" where
  "thousands n =
     (if n < 0 then CHR ''-'' # rev (group3 (rev (dec_digits (nat (- n)))))
      else rev (group3 (rev (dec_digits (nat n)))))"

section \<open>Arithmetic on 64-bit columns\<close>

text \<open>
  An amount column is \<^verbatim>\<open>float64\<close>, or \<^verbatim>\<open>int64\<close> when the files hold whole numbers only. The
  result of adding or subtracting two amounts, and of summing a column, is a 64-bit value:
  a finite number, an infinity, or NaN.
\<close>

datatype float64 = Finite real | Infinite | NaN

text \<open>
  An operation on representable operands whose exact result is representable returns that
  result (IEEE 754 for floats; 64-bit integers are exact below \<^verbatim>\<open>2^63\<close>). \<open>exact_float64\<close> is
  a sufficient condition for a number to be representable: it is a multiple of \<^verbatim>\<open>2^-k\<close>, for
  some \<open>k\<close> up to 52, of absolute value at most \<^verbatim>\<open>2^(53-k)\<close>. What an operation returns
  otherwise (a rounded result, an infinity, a wrapped integer) is not fixed by the model:
  it is the parameter \<open>ops\<close>.
\<close>

definition on_grid :: "nat \<Rightarrow> real \<Rightarrow> bool" where
  "on_grid k x \<longleftrightarrow> of_int \<lfloor>x * 2 ^ k\<rfloor> = x * 2 ^ k"

definition exact_float64 :: "real \<Rightarrow> bool" where
  "exact_float64 x \<longleftrightarrow> (\<exists>k \<in> {0..52}. on_grid k x \<and> \<bar>x\<bar> * 2 ^ k \<le> 2 ^ 53)"

record float64_ops =
  add64 :: "real \<Rightarrow> real \<Rightarrow> float64"
  sub64 :: "real \<Rightarrow> real \<Rightarrow> float64"
  sum64 :: "float64 list \<Rightarrow> float64"

definition float64_add :: "float64_ops \<Rightarrow> real \<Rightarrow> real \<Rightarrow> float64" where
  "float64_add ops a b =
     (if exact_float64 a \<and> exact_float64 b \<and> exact_float64 (a + b) then Finite (a + b)
      else add64 ops a b)"

definition float64_sub :: "float64_ops \<Rightarrow> real \<Rightarrow> real \<Rightarrow> float64" where
  "float64_sub ops a b =
     (if exact_float64 a \<and> exact_float64 b \<and> exact_float64 (a - b) then Finite (a - b)
      else sub64 ops a b)"

text \<open>
  \<^verbatim>\<open>Series.sum()\<close> adds the values of a column in an order the library chooses. When the
  values are finite multiples of \<^verbatim>\<open>2^-k\<close> whose absolute values sum to at most \<^verbatim>\<open>2^(53-k)\<close>,
  every partial sum is representable whatever the order, and the result is the exact sum;
  the sum of an empty column is 0.
\<close>

definition exact_sum :: "real list \<Rightarrow> bool" where
  "exact_sum xs \<longleftrightarrow>
     (\<exists>k \<in> {0..52}. list_all (on_grid k) xs \<and> sum_list (map abs xs) * 2 ^ k \<le> 2 ^ 53)"

fun finite_value :: "float64 \<Rightarrow> real option" where
  "finite_value (Finite x) = Some x"
| "finite_value Infinite = None"
| "finite_value NaN = None"

definition np_sum :: "float64_ops \<Rightarrow> float64 list \<Rightarrow> float64" where
  "np_sum ops col =
     (case those (map finite_value col) of
        Some xs \<Rightarrow> if exact_sum xs then Finite (sum_list xs) else sum64 ops col
      | None \<Rightarrow> sum64 ops col)"

section \<open>KPI value boxes: \<^verbatim>\<open>kpis\<close> (lines 482-490)\<close>

text \<open>
  \<^verbatim>\<open>fmt = lambda v: f"{int(v):,}"\<close>; \<^verbatim>\<open>int\<close> raises \<^verbatim>\<open>OverflowError\<close> on an infinity and
  \<^verbatim>\<open>ValueError\<close> on NaN.
\<close>

fun fmt :: "float64 \<Rightarrow> py_error + string" where
  "fmt (Finite v) = Inr (thousands (py_int v))"
| "fmt Infinite = Inl OverflowError"
| "fmt NaN = Inl ValueError"

definition kpis ::
  "float64_ops \<Rightarrow> dataset \<Rightarrow> string \<Rightarrow> int
     \<Rightarrow> py_error + string \<times> string \<times> string \<times> string" where
  "kpis ops sea_data c y =
     (let df = filter (\<lambda>r. country r = c \<and> year r = y) sea_data;
          total_trade = np_sum ops (map (\<lambda>r. float64_add ops (export_USD r) (import_USD r)) df);
          total_export = np_sum ops (map (\<lambda>r. Finite (export_USD r)) df);
          total_import = np_sum ops (map (\<lambda>r. Finite (import_USD r)) df);
          trade_balance = np_sum ops (map (\<lambda>r. float64_sub ops (export_USD r) (import_USD r)) df)
      in case fmt total_trade of Inl e \<Rightarrow> Inl e | Inr trade \<Rightarrow>
        (case fmt total_export of Inl e \<Rightarrow> Inl e | Inr export \<Rightarrow>
        (case fmt total_import of Inl e \<Rightarrow> Inl e | Inr import \<Rightarrow>
        (case fmt trade_balance of Inl e \<Rightarrow> Inl e | Inr balance \<Rightarrow>
           Inr (trade, export, import, balance)))))"

section \<open>Filtered data table: \<^verbatim>\<open>update_table\<close> (lines 500-516)\<close>

record table_row =
  t_country :: string
  t_partner_name :: string
  t_year :: int
  t_export_USD :: real
  t_import_USD :: real
  t_trade_value :: real

definition table_columns :: "(string \<times> string) list" where
  "table_columns =
     [(''Country'', ''country''), (''Trading Partner'', ''partner_name''), (''Year'', ''year''),
      (''Export (USD)'', ''export_USD''), (''Import (USD)'', ''import_USD''),
      (''Total Trade (USD)'', ''trade_value'')]"

definition update_table ::
  "dataset \<Rightarrow> string \<Rightarrow> int \<Rightarrow> table_row list \<times> (string \<times> string) list \<times> string" where
  "update_table sea_data c y =
     (let filt = filter (\<lambda>r. country r = c \<and> year r = y) sea_data;
          tbl = map (\<lambda>r. \<lparr>t_country = country r, t_partner_name = partner_name r,
                           t_year = year r, t_export_USD = export_USD r,
                           t_import_USD = import_USD r,
                           t_trade_value = export_USD r + import_USD r\<rparr>) filt;
          title = ''Full International Trade Data for '' @ c @ '' in '' @ str_int y
      in (tbl, table_columns, title))"

section \<open>Grouping on categorical columns\<close>

text \<open>
  Line 37 turns the four label columns into pandas categoricals. The categories of a column
  are its distinct values in sorted order, and filtering rows does not remove a category.
\<close>

definition categories :: "string list \<Rightarrow> string list" where
  "categories col = sort (remdups col)"

text \<open>
  \<^verbatim>\<open>groupby\<close> lists its groups in sorted key order (category order for a categorical key). The
  source leaves pandas' option \<^verbatim>\<open>observed\<close> at the library default, which is \<^verbatim>\<open>False\<close> before
  pandas 3.0 and \<^verbatim>\<open>True\<close> from 3.0 on. With \<^verbatim>\<open>observed=False\<close> every category of a
  categorical key gets a group, also one no selected row carries (its sum is 0); with
  several keys the groups are the product of the keys' levels. The option is a parameter
  of the model, so that each result says which behaviour it is about.
\<close>

definition categorical_index :: "bool \<Rightarrow> string list \<Rightarrow> string list \<Rightarrow> string list" where
  "categorical_index observed cats col =
     (if observed then filter (\<lambda>c. c \<in> set col) cats else cats)"


definition groupby_sum ::
  "'k list \<Rightarrow> ('r \<Rightarrow> 'k) \<Rightarrow> ('r \<Rightarrow> real) \<Rightarrow> 'r list \<Rightarrow> ('k \<times> real) list" where
  "groupby_sum index key col rows =
     map (\<lambda>k. (k, sum_list (map col (filter (\<lambda>r. key r = k) rows)))) index"

text \<open>
  \<^verbatim>\<open>left.merge(right, on=key, how="left")\<close>: every left row, once per right row with its
  key, and once with a missing value (NaN, here \<open>None\<close>) when no right row has it.
\<close>

definition merge_left :: "('k \<times> 'a) list \<Rightarrow> ('k \<times> 'b) list \<Rightarrow> ('k \<times> 'a \<times> 'b option) list" where
  "merge_left left right =
     concat (map (\<lambda>(k, a).
       case filter (\<lambda>(k', b). k' = k) right of
         [] \<Rightarrow> [(k, a, None)]
       | ms \<Rightarrow> map (\<lambda>(k', b). (k, a, Some b)) ms) left)"

text \<open>Adding a column that may hold NaN to a column of numbers.\<close>

fun add_nan :: "real \<Rightarrow> real option \<Rightarrow> real option" where
  "add_nan a None = None"
| "add_nan a (Some b) = Some (a + b)"

section \<open>Chart A, total trade by country and year: \<^verbatim>\<open>chart_a\<close> (lines 360-371)\<close>




section \<open>Chart F, top 10 partners: \<^verbatim>\<open>update_top_partners\<close> (lines 524-538)\<close>

record top_row =
  p_partner_name :: string
  p_total_export :: real
  p_total_import :: "real option"
  p_total_trade :: "real option"

text \<open>
  \<^verbatim>\<open>sort_values("total_trade", ascending=False)\<close> runs pandas' default sorting algorithm
  (\<^verbatim>\<open>kind="quicksort"\<close>), which pandas documents as not stable. The sort is a parameter of the
  model; \<open>sort_values_desc\<close> is what pandas promises of it: the rows are permuted into
  descending key order, rows with a missing key last.
\<close>

fun desc_na_last :: "real option \<Rightarrow> real option \<Rightarrow> bool" where
  "desc_na_last a None = True"
| "desc_na_last None (Some b) = False"
| "desc_na_last (Some a) (Some b) = (b \<le> a)"

definition sort_values_desc :: "(top_row list \<Rightarrow> top_row list) \<Rightarrow> bool" where
  "sort_values_desc srt \<longleftrightarrow>
     (\<forall>xs. mset (srt xs) = mset xs \<and>
           sorted_wrt (\<lambda>a b. desc_na_last (p_total_trade a) (p_total_trade b)) (srt xs))"

text \<open>\<open>partner_totals\<close> is the table \<^verbatim>\<open>top\<close> of lines 525-537, before it is sorted and cut.\<close>

definition partner_totals :: "bool \<Rightarrow> dataset \<Rightarrow> string \<Rightarrow> int \<Rightarrow> top_row list" where
  "partner_totals observed sea_data c y =
     (let filt = filter (\<lambda>r. country r = c \<and> year r = y) sea_data;
          index = categorical_index observed (categories (map partner_name sea_data))
                    (map partner_name filt);
          top_export = groupby_sum index partner_name export_USD filt;
          top_import = groupby_sum index partner_name import_USD filt;
          top = merge_left top_export top_import
      in map (\<lambda>(p, e, i).
            \<lparr>p_partner_name = p, p_total_export = e, p_total_import = i,
             p_total_trade = add_nan e i\<rparr>) top)"

definition update_top_partners ::
  "bool \<Rightarrow> (top_row list \<Rightarrow> top_row list) \<Rightarrow> dataset \<Rightarrow> string \<Rightarrow> int \<Rightarrow> top_row list" where
  "update_top_partners observed sort_values sea_data c y =
     take 10 (sort_values (partner_totals observed sea_data c y))"

text \<open>A stable descending sort (insertion sort), to evaluate the model on examples.\<close>

fun insort_desc :: "top_row \<Rightarrow> top_row list \<Rightarrow> top_row list" where
  "insort_desc x [] = [x]"
| "insort_desc x (y # ys) =
     (if desc_na_last (p_total_trade x) (p_total_trade y) then x # y # ys
      else y # insort_desc x ys)"

definition stable_sort_desc :: "top_row list \<Rightarrow> top_row list" where
  "stable_sort_desc xs = foldr insort_desc xs []"

section \<open>Chart D, scatter with OLS line: \<^verbatim>\<open>chart_d\<close> (lines 447-472)\<close>

text \<open>
  \<^verbatim>\<open>np.polyfit(x, y, 1)\<close> is the numerical library's least-squares routine; it is a parameter
  of the model and may raise. \<^verbatim>\<open>np.linspace(start, stop, num)\<close> gives \<open>num\<close> points with equal
  steps from \<open>start\<close> to \<open>stop\<close>, both included.
\<close>

datatype np_error = LinAlgError | TypeError

type_synonym polyfit = "real list \<Rightarrow> real list \<Rightarrow> np_error + real \<times> real"

definition linspace :: "real \<Rightarrow> real \<Rightarrow> nat \<Rightarrow> real list" where
  "linspace start stop num =
     map (\<lambda>i. start + real i * ((stop - start) / real (num - 1))) [0..<num]"

record chart_d_fig =
  d_points :: "(real \<times> real) list"
  d_ols_fit :: "(real list \<times> real list) option"

definition chart_d :: "polyfit \<Rightarrow> dataset \<Rightarrow> string \<Rightarrow> int \<Rightarrow> np_error + chart_d_fig" where
  "chart_d np_polyfit sea_data c y =
     (let df = filter (\<lambda>r. country r = c \<and> year r = y) sea_data;
          pts = map (\<lambda>r. (export_USD r, import_USD r)) df
      in if length df \<ge> 2
         then (let x = map export_USD df; y = map import_USD df
               in case np_polyfit x y of
                    Inl e \<Rightarrow> Inl e
                  | Inr (b1, b0) \<Rightarrow>
                      (let xs = linspace (Min (set x)) (Max (set x)) 100;
                           ys = map (\<lambda>v. b1 * v + b0) xs
                       in Inr \<lparr>d_points = pts, d_ols_fit = Some (xs, ys)\<rparr>))
         else Inr \<lparr>d_points = pts, d_ols_fit = None\<rparr>)"

text \<open>The mean and the variance of the claim's closed form.\<close>

definition mean :: "real list \<Rightarrow> real" where
  "mean xs = sum_list xs / real (length xs)"


text \<open>
  \<^verbatim>\<open>np.polyfit(x, y, 1)\<close> divides each column of the design matrix (\<open>x\<close> and the constant 1)
  by its norm and solves the scaled system by SVD in 64-bit floats, dropping singular values
  below \<^verbatim>\<open>len(x) * eps\<close> times the largest and taking the solution of least norm when the
  rank is short. The model fixes what this gives when all abscissae are equal. For the
  common value 0 the first column has norm 0, the scaling divides by it and the solver
  raises. For a common value \<open>c \<noteq> 0\<close> the solution is the least-norm line
  \<open>(mean y / (2 c), mean y / 2)\<close> (up to rounding), as long as no intermediate value leaves
  the range of the floats: \<open>within_range\<close> asks for magnitudes between \<^verbatim>\<open>2^-500\<close> and
  \<^verbatim>\<open>2^500\<close> and at most \<^verbatim>\<open>2^20\<close> points. Everywhere else the result is a floating-point
  solution that the model leaves to the parameter \<open>lstsq\<close>.
\<close>

definition within_range :: "real list \<Rightarrow> real list \<Rightarrow> bool" where
  "within_range xs ys \<longleftrightarrow>
     list_all (\<lambda>x. 1 / 2 ^ 500 \<le> \<bar>x\<bar> \<and> \<bar>x\<bar> \<le> 2 ^ 500) xs
     \<and> list_all (\<lambda>y. \<bar>y\<bar> \<le> 2 ^ 500) ys \<and> length xs \<le> 2 ^ 20"

definition polyfit1 :: "polyfit \<Rightarrow> polyfit" where
  "polyfit1 lstsq xs ys =
     (if xs = [] \<or> length xs \<noteq> length ys then Inl TypeError
      else if list_all (\<lambda>x. x = hd xs) xs
      then (if hd xs = 0 then Inl LinAlgError
            else if within_range xs ys then Inr (mean ys / (2 * hd xs), mean ys / 2)
            else lstsq xs ys)
      else lstsq xs ys)"

section \<open>Loading the data (lines 20-37)\<close>

text \<open>
  A cell as \<^verbatim>\<open>read_csv\<close> delivers it, up to numeric parsing: missing (\<open>NA\<close>), a number or text
  that reads as a number (\<open>Num\<close>), or text that does not (\<open>Text\<close>). The field names are the
  eight names line 29 assigns by position.
\<close>

datatype cell = NA | Num real | Text string

record raw_row =
  f_country :: cell
  f_country_code :: cell
  f_partner_name :: cell
  f_partner_name_code :: cell
  f_year :: cell
  f_export_USD :: cell
  f_import_USD :: cell
  f_trade_balance_USD :: cell

record loaded_row =
  l_country :: cell
  l_country_code :: cell
  l_partner_name :: cell
  l_partner_name_code :: cell
  l_year :: int
  l_export_USD :: cell
  l_import_USD :: cell
  l_trade_balance_USD :: cell

datatype load_error = NoObjectsToConcatenate | IntCastingNaNError

definition cells :: "raw_row \<Rightarrow> cell list" where
  "cells r = [f_country r, f_country_code r, f_partner_name r, f_partner_name_code r,
              f_year r, f_export_USD r, f_import_USD r, f_trade_balance_USD r]"

text \<open>\<^verbatim>\<open>dropna(axis=0, how="any")\<close>\<close>

definition dropna :: "raw_row list \<Rightarrow> raw_row list" where
  "dropna rows = filter (\<lambda>r. NA \<notin> set (cells r)) rows"

text \<open>\<^verbatim>\<open>pd.to_numeric(..., errors="coerce")\<close>: what does not parse becomes NaN.\<close>

fun to_numeric_coerce :: "cell \<Rightarrow> real option" where
  "to_numeric_coerce (Num v) = Some v"
| "to_numeric_coerce (Text s) = None"
| "to_numeric_coerce NA = None"

text \<open>
  \<^verbatim>\<open>.astype(int)\<close> raises on a column that holds NaN. Otherwise it casts each value to a
  64-bit integer: the value truncated toward zero, and \<^verbatim>\<open>-2^63\<close> for a value out of range
  (what the cast gives on x86-64).
\<close>

definition int64_cast :: "real \<Rightarrow> int" where
  "int64_cast v =
     (if - (2 ^ 63) \<le> py_int v \<and> py_int v < 2 ^ 63 then py_int v else - (2 ^ 63))"

definition astype_int :: "real option list \<Rightarrow> load_error + int list" where
  "astype_int col =
     (case those (map (map_option int64_cast) col) of
        None \<Rightarrow> Inl IntCastingNaNError
      | Some ints \<Rightarrow> Inr ints)"

definition load :: "raw_row list list \<Rightarrow> load_error + loaded_row list" where
  "load dfs =
     (if dfs = [] then Inl NoObjectsToConcatenate
      else (let sea_data = dropna (concat dfs)
            in case astype_int (map (\<lambda>r. to_numeric_coerce (f_year r)) sea_data) of
                 Inl e \<Rightarrow> Inl e
               | Inr years \<Rightarrow>
                   Inr (map (\<lambda>(r, y).
                     \<lparr>l_country = f_country r, l_country_code = f_country_code r,
                      l_partner_name = f_partner_name r,
                      l_partner_name_code = f_partner_name_code r, l_year = y,
                      l_export_USD = f_export_USD r, l_import_USD = f_import_USD r,
                      l_trade_balance_USD = f_trade_balance_USD r\<rparr>) (zip sea_data years))))"

section \<open>Country order, year settings and the filter defaults (lines 47-56, 130-146)\<close>

definition priority :: "string list" where
  "priority = [''Malaysia'', ''Indonesia'', ''Singapore'', ''Thailand'']"

definition others :: "dataset \<Rightarrow> string list" where
  "others sea_data = filter (\<lambda>c. c \<notin> set priority) (categories (map country sea_data))"

definition COUNTRY_CHOICES :: "dataset \<Rightarrow> string list" where
  "COUNTRY_CHOICES sea_data = priority @ others sea_data"

text \<open>
  \<^verbatim>\<open>int(sea_data["year"].min())\<close> raises on an empty table (the minimum is NaN); the result is
  the pair \<open>(YEAR_MIN, YEAR_MAX)\<close> after lines 55 and 56.
\<close>

definition year_settings :: "dataset \<Rightarrow> py_error + int \<times> int" where
  "year_settings sea_data =
     (if sea_data = [] then Inl ValueError
      else (let YEAR_MIN = Min (set (map year sea_data));
                YEAR_MAX = Max (set (map year sea_data));
                YEAR_MIN = min YEAR_MIN 2015;
                YEAR_MAX = max YEAR_MAX 2022
            in Inr (YEAR_MIN, YEAR_MAX)))"

text \<open>The dropdown's and the slider's \<^verbatim>\<open>value=\<close>: the literal "Malaysia", and \<open>YEAR_MAX\<close>.\<close>

definition selected_country_default :: string where
  "selected_country_default = ''Malaysia''"

definition selected_year_default :: "dataset \<Rightarrow> py_error + int" where
  "selected_year_default sea_data =
     (case year_settings sea_data of Inl e \<Rightarrow> Inl e | Inr (YEAR_MIN, YEAR_MAX) \<Rightarrow> Inr YEAR_MAX)"

section \<open>Notions of the specification\<close>

text \<open>The records a (country, year) filter matches, and the sums the specification names.\<close>

definition matching :: "dataset \<Rightarrow> string \<Rightarrow> int \<Rightarrow> dataset" where
  "matching sea_data c y = filter (\<lambda>r. country r = c \<and> year r = y) sea_data"

definition total_export :: "dataset \<Rightarrow> string \<Rightarrow> int \<Rightarrow> real" where
  "total_export sea_data c y = sum_list (map export_USD (matching sea_data c y))"

definition total_import :: "dataset \<Rightarrow> string \<Rightarrow> int \<Rightarrow> real" where
  "total_import sea_data c y = sum_list (map import_USD (matching sea_data c y))"

text \<open>Per partner, over the matching records: the summed export, the summed import, and the row
  that carries both with their sum.\<close>

definition partner_export :: "dataset \<Rightarrow> string \<Rightarrow> int \<Rightarrow> string \<Rightarrow> real" where
  "partner_export sea_data c y p =
     sum_list (map export_USD (filter (\<lambda>r. partner_name r = p) (matching sea_data c y)))"

definition partner_import :: "dataset \<Rightarrow> string \<Rightarrow> int \<Rightarrow> string \<Rightarrow> real" where
  "partner_import sea_data c y p =
     sum_list (map import_USD (filter (\<lambda>r. partner_name r = p) (matching sea_data c y)))"

definition partner_row :: "dataset \<Rightarrow> string \<Rightarrow> int \<Rightarrow> string \<Rightarrow> top_row" where
  "partner_row sea_data c y p =
     \<lparr>p_partner_name = p, p_total_export = partner_export sea_data c y p,
      p_total_import = Some (partner_import sea_data c y p),
      p_total_trade = Some (partner_export sea_data c y p + partner_import sea_data c y p)\<rparr>"





section \<open>Example tables\<close>

text \<open>The two records of the specification's example.\<close>

definition spec_example :: dataset where
  "spec_example =
     [\<lparr>country = ''Malaysia'', country_code = ''MYS'', partner_name = ''PartnerA'',
       partner_name_code = ''PA'', year = 2020, export_USD = 100, import_USD = 50,
       trade_balance_USD = 50\<rparr>,
      \<lparr>country = ''Malaysia'', country_code = ''MYS'', partner_name = ''PartnerB'',
       partner_name_code = ''PB'', year = 2020, export_USD = 200, import_USD = 80,
       trade_balance_USD = 120\<rparr>]"

text \<open>One record with amounts that are not whole numbers (1.5 and 0.75).\<close>

definition fractional_example :: dataset where
  "fractional_example =
     [\<lparr>country = ''Malaysia'', country_code = ''MYS'', partner_name = ''PartnerA'',
       partner_name_code = ''PA'', year = 2020, export_USD = 3 / 2, import_USD = 3 / 4,
       trade_balance_USD = 3 / 4\<rparr>]"


text \<open>A table whose only year is 2025, and one whose only year is 2019.\<close>

definition late_example :: dataset where
  "late_example =
     [\<lparr>country = ''Malaysia'', country_code = ''MYS'', partner_name = ''PartnerA'',
       partner_name_code = ''PA'', year = 2025, export_USD = 100, import_USD = 50,
       trade_balance_USD = 50\<rparr>]"

definition early_example :: dataset where
  "early_example =
     [\<lparr>country = ''Malaysia'', country_code = ''MYS'', partner_name = ''PartnerA'',
       partner_name_code = ''PA'', year = 2019, export_USD = 100, import_USD = 50,
       trade_balance_USD = 50\<rparr>]"

text \<open>One file with one complete row whose year is the text "abc".\<close>

definition text_year_file :: "raw_row list" where
  "text_year_file =
     [\<lparr>f_country = Text ''Malaysia'', f_country_code = Text ''MYS'',
       f_partner_name = Text ''PartnerA'', f_partner_name_code = Text ''PA'',
       f_year = Text ''abc'', f_export_USD = Num 100, f_import_USD = Num 50,
       f_trade_balance_USD = Num 50\<rparr>]"


definition zero_export_example :: dataset where
  "zero_export_example =
     [\<lparr>country = ''Malaysia'', country_code = ''MYS'', partner_name = ''PartnerA'',
       partner_name_code = ''PA'', year = 2020, export_USD = 0, import_USD = 1,
       trade_balance_USD = - 1\<rparr>,
      \<lparr>country = ''Malaysia'', country_code = ''MYS'', partner_name = ''PartnerB'',
       partner_name_code = ''PB'', year = 2020, export_USD = 0, import_USD = 2,
       trade_balance_USD = - 2\<rparr>]"

section \<open>Exact 64-bit arithmetic\<close>

lemma on_grid_Ints: "on_grid k x \<longleftrightarrow> x * 2 ^ k \<in> \<int>"
  unfolding on_grid_def by (metis Ints_of_int of_int_floor)

lemma on_grid_add: "on_grid k a \<Longrightarrow> on_grid k b \<Longrightarrow> on_grid k (a + b)"
  unfolding on_grid_Ints by (simp add: distrib_right)

lemma on_grid_diff: "on_grid k a \<Longrightarrow> on_grid k b \<Longrightarrow> on_grid k (a - b)"
  unfolding on_grid_Ints by (simp add: left_diff_distrib)

lemma exact_float64_grid:
  "k \<le> 52 \<Longrightarrow> on_grid k x \<Longrightarrow> \<bar>x\<bar> * 2 ^ k \<le> 2 ^ 53 \<Longrightarrow> exact_float64 x"
  unfolding exact_float64_def by auto

lemma those_map_Some: "those (map (\<lambda>x. Some (f x)) xs) = Some (map f xs)"
  by (induction xs) simp_all

lemma np_sum_exact:
  assumes "k \<le> 52" "\<forall>r \<in> set rows. v r = Finite (f r)" "\<forall>r \<in> set rows. on_grid k (f r)"
    and "sum_list (map (\<lambda>r. \<bar>f r\<bar>) rows) * 2 ^ k \<le> 2 ^ 53"
  shows "np_sum ops (map v rows) = Finite (sum_list (map f rows))"
proof -
  have "map finite_value (map v rows) = map (\<lambda>r. Some (f r)) rows"
    using assms(2) by simp
  then have t: "those (map finite_value (map v rows)) = Some (map f rows)"
    by (simp only: those_map_Some)
  have "list_all (on_grid k) (map f rows)"
    using assms(3) by (simp add: list_all_iff)
  moreover have "sum_list (map abs (map f rows)) * 2 ^ k \<le> 2 ^ 53"
    using assms(4) by (simp add: comp_def)
  ultimately have "exact_sum (map f rows)"
    unfolding exact_sum_def using assms(1) by auto
  with t show ?thesis
    by (simp add: np_sum_def)
qed

lemma elem_le_sum_list:
  fixes f :: "'a \<Rightarrow> real"
  assumes "r \<in> set xs" "\<forall>x \<in> set xs. 0 \<le> f x"
  shows "f r \<le> sum_list (map f xs)"
  using assms
proof (induction xs)
  case Nil
  then show ?case by simp
next
  case (Cons a xs)
  have "0 \<le> sum_list (map f xs)"
    using Cons.prems(2) by (intro sum_list_nonneg) auto
  with Cons show ?case by auto
qed

section \<open>Sums of columns\<close>

lemma sum_list_add_cols:
  "sum_list (map (\<lambda>r. f r + g r) xs) = sum_list (map f xs) + (sum_list (map g xs) :: real)"
  by (induction xs) simp_all

lemma sum_list_diff_cols:
  "sum_list (map (\<lambda>r. f r - g r) xs) = sum_list (map f xs) - (sum_list (map g xs) :: real)"
  by (induction xs) simp_all

section \<open>Truncation\<close>

lemma py_int_of_int: "py_int (of_int n) = n"
  by (simp add: py_int_def)

lemma sum_list_Ints: "(\<forall>r \<in> set xs. f r \<in> \<int>) \<Longrightarrow> sum_list (map f xs) \<in> (\<int> :: real set)"
  by (induction xs) auto

lemma py_int_add_Ints: "a \<in> \<int> \<Longrightarrow> b \<in> \<int> \<Longrightarrow> py_int (a + b) = py_int a + py_int b"
  by (auto elim!: Ints_cases simp: py_int_of_int simp flip: of_int_add)

lemma py_int_diff_Ints: "a \<in> \<int> \<Longrightarrow> b \<in> \<int> \<Longrightarrow> py_int (a - b) = py_int a - py_int b"
  by (auto elim!: Ints_cases simp: py_int_of_int simp flip: of_int_diff)

lemma of_int_py_int: "a \<in> \<int> \<Longrightarrow> of_int (py_int a) = a"
  by (auto elim!: Ints_cases simp: py_int_of_int)

lemma thousands_small:
  "thousands (py_int 430) = ''430''" "thousands (py_int 300) = ''300''"
  "thousands (py_int 130) = ''130''" "thousands (py_int 170) = ''170''"
  "thousands 0 = ''0''" "thousands 1 = ''1''" "thousands 2 = ''2''"
  by (simp_all add: py_int_def thousands_def dec_digits.simps)

section \<open>The KPI values\<close>

text \<open>
  When every matching amount is a multiple of \<^verbatim>\<open>2^-k\<close> and the absolute amounts sum to at
  most \<^verbatim>\<open>2^(53-k)\<close>, no addition of \<open>kpis\<close> rounds: the boxes show the exact sums, truncated.
\<close>

lemma kpis_exact:
  assumes k: "k \<le> 52"
    and grid: "\<forall>r \<in> set (matching ds c y). on_grid k (export_USD r) \<and> on_grid k (import_USD r)"
    and bound: "sum_list (map (\<lambda>r. \<bar>export_USD r\<bar> + \<bar>import_USD r\<bar>) (matching ds c y)) * 2 ^ k
                  \<le> 2 ^ 53"
  shows "kpis ops ds c y =
     Inr (thousands (py_int (total_export ds c y + total_import ds c y)),
          thousands (py_int (total_export ds c y)),
          thousands (py_int (total_import ds c y)),
          thousands (py_int (total_export ds c y - total_import ds c y)))"
proof -
  let ?M = "matching ds c y"
  let ?B = "sum_list (map (\<lambda>r. \<bar>export_USD r\<bar> + \<bar>import_USD r\<bar>) ?M)"
  have each: "\<bar>export_USD r\<bar> + \<bar>import_USD r\<bar> \<le> ?B" if "r \<in> set ?M" for r
    using that by (rule elem_le_sum_list) simp
  have small: "a * 2 ^ k \<le> 2 ^ 53" if "a \<le> ?B" for a :: real
  proof -
    from that have "a * 2 ^ k \<le> ?B * 2 ^ k"
      by (simp add: mult_right_mono)
    with bound show ?thesis by linarith
  qed
  have le_e: "sum_list (map (\<lambda>r. \<bar>export_USD r\<bar>) ?M) \<le> ?B"
    by (rule sum_list_mono) simp
  have le_i: "sum_list (map (\<lambda>r. \<bar>import_USD r\<bar>) ?M) \<le> ?B"
    by (rule sum_list_mono) simp
  have le_a: "sum_list (map (\<lambda>r. \<bar>export_USD r + import_USD r\<bar>) ?M) \<le> ?B"
    by (rule sum_list_mono) simp
  have le_d: "sum_list (map (\<lambda>r. \<bar>export_USD r - import_USD r\<bar>) ?M) \<le> ?B"
    by (rule sum_list_mono) simp
  have exact: "exact_float64 x" if "on_grid k x" "\<bar>x\<bar> \<le> ?B" for x
    using k that(1) small [OF that(2)] by (rule exact_float64_grid)
  have operands: "exact_float64 (export_USD r)" "exact_float64 (import_USD r)"
    if "r \<in> set ?M" for r
    using grid that each [OF that] by (auto intro!: exact)
  have add: "float64_add ops (export_USD r) (import_USD r)
      = Finite (export_USD r + import_USD r)" if "r \<in> set ?M" for r
  proof -
    have "on_grid k (export_USD r + import_USD r)"
      using grid that by (simp add: on_grid_add)
    moreover have "\<bar>export_USD r + import_USD r\<bar> \<le> ?B"
      using each [OF that] by linarith
    ultimately have "exact_float64 (export_USD r + import_USD r)"
      by (rule exact)
    with operands [OF that] show ?thesis
      by (simp add: float64_add_def)
  qed
  have diff: "float64_sub ops (export_USD r) (import_USD r)
      = Finite (export_USD r - import_USD r)" if "r \<in> set ?M" for r
  proof -
    have "on_grid k (export_USD r - import_USD r)"
      using grid that by (simp add: on_grid_diff)
    moreover have "\<bar>export_USD r - import_USD r\<bar> \<le> ?B"
      using each [OF that] by linarith
    ultimately have "exact_float64 (export_USD r - import_USD r)"
      by (rule exact)
    with operands [OF that] show ?thesis
      by (simp add: float64_sub_def)
  qed
  have trade: "np_sum ops (map (\<lambda>r. float64_add ops (export_USD r) (import_USD r)) ?M)
      = Finite (sum_list (map (\<lambda>r. export_USD r + import_USD r) ?M))"
    using k
  proof (rule np_sum_exact)
    show "\<forall>r \<in> set ?M. float64_add ops (export_USD r) (import_USD r)
        = Finite (export_USD r + import_USD r)"
      using add by blast
    show "\<forall>r \<in> set ?M. on_grid k (export_USD r + import_USD r)"
      using grid by (simp add: on_grid_add)
    show "sum_list (map (\<lambda>r. \<bar>export_USD r + import_USD r\<bar>) ?M) * 2 ^ k \<le> 2 ^ 53"
      using le_a by (rule small)
  qed
  have balance: "np_sum ops (map (\<lambda>r. float64_sub ops (export_USD r) (import_USD r)) ?M)
      = Finite (sum_list (map (\<lambda>r. export_USD r - import_USD r) ?M))"
    using k
  proof (rule np_sum_exact)
    show "\<forall>r \<in> set ?M. float64_sub ops (export_USD r) (import_USD r)
        = Finite (export_USD r - import_USD r)"
      using diff by blast
    show "\<forall>r \<in> set ?M. on_grid k (export_USD r - import_USD r)"
      using grid by (simp add: on_grid_diff)
    show "sum_list (map (\<lambda>r. \<bar>export_USD r - import_USD r\<bar>) ?M) * 2 ^ k \<le> 2 ^ 53"
      using le_d by (rule small)
  qed
  have export: "np_sum ops (map (\<lambda>r. Finite (export_USD r)) ?M)
      = Finite (sum_list (map export_USD ?M))"
    using k
  proof (rule np_sum_exact)
    show "\<forall>r \<in> set ?M. Finite (export_USD r) = Finite (export_USD r)"
      by simp
    show "\<forall>r \<in> set ?M. on_grid k (export_USD r)"
      using grid by simp
    show "sum_list (map (\<lambda>r. \<bar>export_USD r\<bar>) ?M) * 2 ^ k \<le> 2 ^ 53"
      using le_e by (rule small)
  qed
  have import: "np_sum ops (map (\<lambda>r. Finite (import_USD r)) ?M)
      = Finite (sum_list (map import_USD ?M))"
    using k
  proof (rule np_sum_exact)
    show "\<forall>r \<in> set ?M. Finite (import_USD r) = Finite (import_USD r)"
      by simp
    show "\<forall>r \<in> set ?M. on_grid k (import_USD r)"
      using grid by simp
    show "sum_list (map (\<lambda>r. \<bar>import_USD r\<bar>) ?M) * 2 ^ k \<le> 2 ^ 53"
      using le_i by (rule small)
  qed
  show ?thesis
    unfolding kpis_def Let_def matching_def [symmetric] trade balance export import
    by (simp add: total_export_def total_import_def sum_list_add_cols sum_list_diff_cols)
qed

lemma on_grid_whole: "x \<in> \<int> \<Longrightarrow> on_grid 0 x"
  by (simp add: on_grid_Ints)

text \<open>
  C1 (as amended). When the matching export and import amounts are whole numbers whose
  absolute values sum to at most \<^verbatim>\<open>2^53\<close>, every addition of \<open>kpis\<close> is exact and the four
  boxes show integers that satisfy the two identities: total trade is total export plus
  total import, the balance is total export minus total import, and total export and total
  import are the sums of \<open>export_USD\<close> and \<open>import_USD\<close> over the matching records.
\<close>

theorem kpis_whole_amounts:
  assumes "\<forall>r \<in> set (matching ds c y). export_USD r \<in> \<int> \<and> import_USD r \<in> \<int>"
    and "sum_list (map (\<lambda>r. \<bar>export_USD r\<bar> + \<bar>import_USD r\<bar>) (matching ds c y)) \<le> 2 ^ 53"
  shows "kpis ops ds c y =
     Inr (thousands (py_int (total_export ds c y) + py_int (total_import ds c y)),
          thousands (py_int (total_export ds c y)),
          thousands (py_int (total_import ds c y)),
          thousands (py_int (total_export ds c y) - py_int (total_import ds c y)))
   \<and> of_int (py_int (total_export ds c y)) = total_export ds c y
   \<and> of_int (py_int (total_import ds c y)) = total_import ds c y"
proof -
  from assms(1) have e: "total_export ds c y \<in> \<int>" and i: "total_import ds c y \<in> \<int>"
    unfolding total_export_def total_import_def by (auto intro!: sum_list_Ints)
  have "kpis ops ds c y =
     Inr (thousands (py_int (total_export ds c y + total_import ds c y)),
          thousands (py_int (total_export ds c y)),
          thousands (py_int (total_import ds c y)),
          thousands (py_int (total_export ds c y - total_import ds c y)))"
  proof (rule kpis_exact [of 0])
    show "\<forall>r \<in> set (matching ds c y). on_grid 0 (export_USD r) \<and> on_grid 0 (import_USD r)"
      using assms(1) by (simp add: on_grid_whole)
    show "sum_list (map (\<lambda>r. \<bar>export_USD r\<bar> + \<bar>import_USD r\<bar>) (matching ds c y)) * 2 ^ 0
            \<le> 2 ^ 53"
      using assms(2) by simp
  qed simp
  with e i show ?thesis
    by (simp add: py_int_add_Ints py_int_diff_Ints of_int_py_int)
qed

lemma spec_example_totals:
  "total_export spec_example ''Malaysia'' 2020 = 300"
  "total_import spec_example ''Malaysia'' 2020 = 130"
  by (simp_all add: total_export_def total_import_def matching_def spec_example_def)

lemma spec_example_whole:
  "\<forall>r \<in> set (matching spec_example ''Malaysia'' 2020). export_USD r \<in> \<int> \<and> import_USD r \<in> \<int>"
  "sum_list (map (\<lambda>r. \<bar>export_USD r\<bar> + \<bar>import_USD r\<bar>) (matching spec_example ''Malaysia'' 2020))
     \<le> 2 ^ 53"
  by (simp_all add: matching_def spec_example_def)

text \<open>The specification's example: 430, 300, 130 and 170.\<close>

theorem kpis_whole_amounts_witness:
  "list_all (\<lambda>r. export_USD r \<in> \<int> \<and> import_USD r \<in> \<int>) (matching spec_example ''Malaysia'' 2020)
   \<and> sum_list (map (\<lambda>r. \<bar>export_USD r\<bar> + \<bar>import_USD r\<bar>) (matching spec_example ''Malaysia'' 2020))
       \<le> 2 ^ 53
   \<and> (\<forall>ops. kpis ops spec_example ''Malaysia'' 2020
         = Inr (''430'', ''300'', ''130'', ''170''))"
proof -
  have "kpis ops spec_example ''Malaysia'' 2020 = Inr (''430'', ''300'', ''130'', ''170'')"
    for ops
  proof -
    note k = kpis_whole_amounts [OF spec_example_whole, of ops,
        unfolded spec_example_totals]
    from k have "kpis ops spec_example ''Malaysia'' 2020 =
      Inr (thousands (py_int 300 + py_int 130), thousands (py_int 300), thousands (py_int 130),
           thousands (py_int 300 - py_int 130))"
      by (rule conjunct1)
    moreover have "py_int 300 + py_int 130 = py_int 430" "py_int 300 - py_int 130 = py_int 170"
      by (simp_all add: py_int_def)
    ultimately show ?thesis
      by (simp only: thousands_small)
  qed
  with spec_example_whole show ?thesis
    unfolding list_all_iff by blast
qed

lemma fractional_example_quarters:
  "\<forall>r \<in> set (matching fractional_example ''Malaysia'' 2020).
      on_grid 2 (export_USD r) \<and> on_grid 2 (import_USD r)"
  "sum_list (map (\<lambda>r. \<bar>export_USD r\<bar> + \<bar>import_USD r\<bar>)
      (matching fractional_example ''Malaysia'' 2020)) * 2 ^ 2 \<le> 2 ^ 53"
  "total_export fractional_example ''Malaysia'' 2020 = 3 / 2"
  "total_import fractional_example ''Malaysia'' 2020 = 3 / 4"
  by (simp_all add: matching_def fractional_example_def on_grid_def total_export_def
      total_import_def)

text \<open>
  C1 as stated fails on amounts that are not whole numbers. With export 1.5 and import 0.75,
  where every sum is exact in binary, the boxes show total trade 2, exports 1, imports 0 and
  balance 0, and neither \<open>2 = 1 + 0\<close> nor \<open>0 = 1 - 0\<close> holds.
\<close>

theorem kpis_truncation_counterexample:
  "\<forall>ops. kpis ops fractional_example ''Malaysia'' 2020 = Inr (''2'', ''1'', ''0'', ''0'')"
proof (intro allI)
  fix ops
  have "(2 :: nat) \<le> 52" by simp
  from kpis_exact [OF this fractional_example_quarters(1,2), of ops]
  show "kpis ops fractional_example ''Malaysia'' 2020 = Inr (''2'', ''1'', ''0'', ''0'')"
    by (simp add: fractional_example_quarters(3,4) py_int_def thousands_small)
qed

text \<open>With no matching record every sum is the sum of an empty column.\<close>

lemma kpis_no_match:
  assumes "matching ds c y = []"
  shows "kpis ops ds c y = Inr (''0'', ''0'', ''0'', ''0'')"
proof -
  have "kpis ops ds c y =
     Inr (thousands (py_int (total_export ds c y + total_import ds c y)),
          thousands (py_int (total_export ds c y)),
          thousands (py_int (total_import ds c y)),
          thousands (py_int (total_export ds c y - total_import ds c y)))"
    by (rule kpis_exact [of 0]) (simp_all add: assms)
  then show ?thesis
    by (simp add: total_export_def total_import_def assms py_int_def thousands_small)
qed

section \<open>The filtered table\<close>

text \<open>
  C8. The table of \<open>update_table\<close> has as many rows as source records match the exact
  (country, year) predicate; without the added column its rows are the matching records,
  in the order of the source; and every row's \<open>trade_value\<close> is its export plus its import.
\<close>

theorem update_table_rows:
  "length (fst (update_table ds c y)) = length (filter (\<lambda>r. country r = c \<and> year r = y) ds)
   \<and> map (\<lambda>row. (t_country row, t_partner_name row, t_year row, t_export_USD row,
                   t_import_USD row))
         (fst (update_table ds c y))
       = map (\<lambda>r. (country r, partner_name r, year r, export_USD r, import_USD r))
           (filter (\<lambda>r. country r = c \<and> year r = y) ds)
   \<and> (\<forall>row \<in> set (fst (update_table ds c y)).
         t_trade_value row = t_export_USD row + t_import_USD row)"
  by (auto simp: update_table_def Let_def comp_def)

lemma update_table_spec_example:
  "fst (update_table spec_example ''Malaysia'' 2020) =
     [\<lparr>t_country = ''Malaysia'', t_partner_name = ''PartnerA'', t_year = 2020,
       t_export_USD = 100, t_import_USD = 50, t_trade_value = 150\<rparr>,
      \<lparr>t_country = ''Malaysia'', t_partner_name = ''PartnerB'', t_year = 2020,
       t_export_USD = 200, t_import_USD = 80, t_trade_value = 280\<rparr>]"
  by (simp add: update_table_def spec_example_def)

theorem update_table_rows_witness:
  "fst (update_table spec_example ''Malaysia'' 2020) =
     [\<lparr>t_country = ''Malaysia'', t_partner_name = ''PartnerA'', t_year = 2020,
       t_export_USD = 100, t_import_USD = 50, t_trade_value = 150\<rparr>,
      \<lparr>t_country = ''Malaysia'', t_partner_name = ''PartnerB'', t_year = 2020,
       t_export_USD = 200, t_import_USD = 80, t_trade_value = 280\<rparr>]
   \<and> length (fst (update_table spec_example ''Malaysia'' 2020)) =
       length (filter (\<lambda>r. country r = ''Malaysia'' \<and> year r = 2020) spec_example)"
  using update_table_rows [of spec_example "''Malaysia''" 2020] update_table_spec_example
  by blast

section \<open>Grouped sums and their merge\<close>

lemma filter_key_map_distinct:
  "distinct index \<Longrightarrow> k \<in> set index \<Longrightarrow>
   filter (\<lambda>(k', b). k' = k) (map (\<lambda>k. (k, G k)) index) = [(k, G k)]"
proof (induction index)
  case Nil
  then show ?case by simp
next
  case (Cons a index)
  show ?case
  proof (cases "a = k")
    case True
    with Cons.prems have "k \<notin> set index" by simp
    then have "filter (\<lambda>(k', b). k' = k) (map (\<lambda>k. (k, G k)) index) = []"
      by (auto simp: filter_empty_conv)
    with True show ?thesis by simp
  next
    case False
    with Cons show ?thesis by auto
  qed
qed

text \<open>Two grouped sums over the same distinct keys merge row by row; no value is missing.\<close>

lemma merge_left_groupby_sum:
  assumes "distinct index"
  shows "merge_left (groupby_sum index key f rows) (groupby_sum index key g rows) =
         map (\<lambda>k. (k, sum_list (map f (filter (\<lambda>r. key r = k) rows)),
                     Some (sum_list (map g (filter (\<lambda>r. key r = k) rows))))) index"
proof -
  let ?G = "\<lambda>k. sum_list (map g (filter (\<lambda>r. key r = k) rows))"
  have one: "\<And>k. k \<in> set index \<Longrightarrow>
      filter (\<lambda>(k', b). k' = k) (map (\<lambda>k. (k, ?G k)) index) = [(k, ?G k)]"
    using assms by (rule filter_key_map_distinct)
  have "merge_left (groupby_sum index key f rows) (groupby_sum index key g rows) =
        concat (map (\<lambda>k. [(k, sum_list (map f (filter (\<lambda>r. key r = k) rows)), Some (?G k))])
          index)"
    unfolding merge_left_def groupby_sum_def map_map comp_def
    by (rule arg_cong[where f = concat], rule map_cong) (simp_all add: one)
  then show ?thesis by simp
qed

lemma distinct_categories: "distinct (categories col)"
  by (simp add: categories_def)

lemma set_categories: "set (categories col) = set col"
  by (simp add: categories_def)


lemma distinct_categorical_index: "distinct (categorical_index obs (categories col) col')"
  by (simp add: categorical_index_def distinct_categories)


section \<open>Sorting\<close>

lemma desc_na_last_trans:
  "desc_na_last a b \<Longrightarrow> desc_na_last b c \<Longrightarrow> desc_na_last a c"
  by (cases a; cases b; cases c) auto

lemma desc_na_last_total: "desc_na_last a b \<or> desc_na_last b a"
  by (cases a; cases b) auto

lemma mset_insort_desc: "mset (insort_desc x ys) = add_mset x (mset ys)"
  by (induction ys) auto

lemma set_insort_desc: "set (insort_desc x ys) = insert x (set ys)"
  by (induction ys) auto

lemma sorted_insort_desc:
  "sorted_wrt (\<lambda>a b. desc_na_last (p_total_trade a) (p_total_trade b)) ys \<Longrightarrow>
   sorted_wrt (\<lambda>a b. desc_na_last (p_total_trade a) (p_total_trade b)) (insort_desc x ys)"
proof (induction ys)
  case Nil
  then show ?case by simp
next
  case (Cons y ys)
  show ?case
  proof (cases "desc_na_last (p_total_trade x) (p_total_trade y)")
    case True
    with Cons.prems show ?thesis
      by (auto intro: desc_na_last_trans)
  next
    case False
    then have "desc_na_last (p_total_trade y) (p_total_trade x)"
      using desc_na_last_total by blast
    with False Cons show ?thesis
      by (auto simp: set_insort_desc)
  qed
qed

lemma mset_stable_sort_desc: "mset (stable_sort_desc xs) = mset xs"
  unfolding stable_sort_desc_def by (induction xs) (simp_all add: mset_insort_desc)

lemma sorted_stable_sort_desc:
  "sorted_wrt (\<lambda>a b. desc_na_last (p_total_trade a) (p_total_trade b)) (stable_sort_desc xs)"
  unfolding stable_sort_desc_def by (induction xs) (simp_all add: sorted_insort_desc)

lemma sort_values_desc_stable: "sort_values_desc stable_sort_desc"
  by (simp add: sort_values_desc_def mset_stable_sort_desc sorted_stable_sort_desc)

lemma sort_values_desc_set: "sort_values_desc srt \<Longrightarrow> set (srt xs) = set xs"
  unfolding sort_values_desc_def by (blast dest: mset_eq_setD)

lemma sort_values_desc_length: "sort_values_desc srt \<Longrightarrow> length (srt xs) = length xs"
  unfolding sort_values_desc_def by (blast dest: mset_eq_length)

lemma sort_values_desc_sorted:
  "sort_values_desc srt \<Longrightarrow>
   sorted_wrt (\<lambda>a b. desc_na_last (p_total_trade a) (p_total_trade b)) (srt xs)"
  unfolding sort_values_desc_def by blast

lemma sort_values_desc_distinct:
  assumes "sort_values_desc srt" "distinct (map f xs)"
  shows "distinct (map f (srt xs))"
proof -
  from assms(1) have "mset (srt xs) = mset xs"
    unfolding sort_values_desc_def by blast
  then have "mset (map f (srt xs)) = mset (map f xs)" by simp
  with assms(2) show ?thesis by (metis mset_eq_imp_distinct_iff)
qed

section \<open>The top partners\<close>

lemma partner_totals_rows:
  "partner_totals obs ds c y =
     map (partner_row ds c y)
       (categorical_index obs (categories (map partner_name ds))
          (map partner_name (matching ds c y)))"
  unfolding partner_totals_def Let_def
  by (simp add: merge_left_groupby_sum [OF distinct_categorical_index] partner_row_def
      partner_export_def partner_import_def matching_def)

lemma partner_totals_names:
  "map p_partner_name (partner_totals obs ds c y) =
     categorical_index obs (categories (map partner_name ds))
       (map partner_name (matching ds c y))"
  by (simp add: partner_totals_rows partner_row_def comp_def)

lemma distinct_partner_totals: "distinct (map p_partner_name (partner_totals obs ds c y))"
  by (simp add: partner_totals_names distinct_categorical_index)

lemma update_top_partners_subset:
  assumes "sort_values_desc srt"
  shows "set (update_top_partners obs srt ds c y) \<subseteq> set (partner_totals obs ds c y)"
  unfolding update_top_partners_def
  using sort_values_desc_set [OF assms] set_take_subset by fastforce

text \<open>
  The top partners, whatever sort pandas runs, as long as it orders the rows by descending
  total trade: \<open>update_top_partners\<close> returns at most 10 rows, the first 10 of the sorted
  partner groups; they are in descending order of total trade; each row is the group of one
  partner of the (country, year) selection, with the partner's summed export, summed import
  and their sum; no partner appears twice; and no group left out has a larger total than a
  row returned. With observed groups only the groups are the partners of the matching
  records; otherwise they are all partner categories of the table. The order among equal
  totals is the sorting algorithm's, which the source does not choose and this theory does
  not model.
\<close>

theorem top_partners_top_ten:
  assumes "sort_values_desc srt"
  shows "length (update_top_partners obs srt ds c y) \<le> 10
    \<and> length (update_top_partners obs srt ds c y) = min 10 (length (partner_totals obs ds c y))
    \<and> sorted_wrt
         (\<lambda>a b. partner_export ds c y (p_partner_name b) + partner_import ds c y (p_partner_name b)
               \<le> partner_export ds c y (p_partner_name a) + partner_import ds c y (p_partner_name a))
         (update_top_partners obs srt ds c y)
    \<and> (\<forall>row \<in> set (update_top_partners obs srt ds c y).
          row = partner_row ds c y (p_partner_name row)
          \<and> row \<in> set (partner_totals obs ds c y))
    \<and> distinct (map p_partner_name (update_top_partners obs srt ds c y))
    \<and> (\<forall>a \<in> set (update_top_partners obs srt ds c y).
        \<forall>b \<in> set (partner_totals obs ds c y) - set (update_top_partners obs srt ds c y).
          partner_export ds c y (p_partner_name b) + partner_import ds c y (p_partner_name b)
            \<le> partner_export ds c y (p_partner_name a) + partner_import ds c y (p_partner_name a))
    \<and> p_partner_name ` set (partner_totals obs ds c y) =
        (if obs then partner_name ` set (matching ds c y) else partner_name ` set ds)"
proof -
  let ?groups = "partner_totals obs ds c y"
  let ?res = "update_top_partners obs srt ds c y"
  let ?tot = "\<lambda>a. partner_export ds c y (p_partner_name a)
                 + partner_import ds c y (p_partner_name a)"
  let ?R = "\<lambda>a b. desc_na_last (p_total_trade a) (p_total_trade b)"
  have res: "?res = take 10 (srt ?groups)"
    by (simp add: update_top_partners_def)
  have row: "row = partner_row ds c y (p_partner_name row)" if "row \<in> set ?groups" for row
    using that by (auto simp: partner_totals_rows partner_row_def)
  have key: "p_total_trade row = Some (?tot row)" if "row \<in> set ?groups" for row
    using that by (auto simp: partner_totals_rows partner_row_def)
  have sub: "set (srt ?groups) = set ?groups"
    using assms by (rule sort_values_desc_set)
  have R: "?R a b \<longleftrightarrow> ?tot b \<le> ?tot a" if "a \<in> set ?groups" "b \<in> set ?groups" for a b
    using that by (simp add: key)
  have "sorted_wrt ?R (srt ?groups)"
    using assms by (rule sort_values_desc_sorted)
  then have srt_sorted: "sorted_wrt (\<lambda>a b. ?tot b \<le> ?tot a) (srt ?groups)"
    by (rule sorted_wrt_mono_rel [rotated]) (simp add: R sub)
  have 1: "length ?res = min 10 (length ?groups)"
    by (simp add: res sort_values_desc_length [OF assms] min.commute)
  then have 0: "length ?res \<le> 10"
    by simp
  have 2: "sorted_wrt (\<lambda>a b. ?tot b \<le> ?tot a) ?res"
    unfolding res using srt_sorted by (rule sorted_wrt_take)
  have in_groups: "set ?res \<subseteq> set ?groups"
    using assms by (rule update_top_partners_subset)
  have 3: "\<forall>row \<in> set ?res. row = partner_row ds c y (p_partner_name row) \<and> row \<in> set ?groups"
    using in_groups row by blast
  have "distinct (map p_partner_name (srt ?groups))"
    using assms distinct_partner_totals by (rule sort_values_desc_distinct)
  then have 4: "distinct (map p_partner_name ?res)"
    unfolding res by (simp add: take_map [symmetric] distinct_take)
  have split: "srt ?groups = ?res @ drop 10 (srt ?groups)"
    by (simp add: res)
  have 5: "\<forall>a \<in> set ?res. \<forall>b \<in> set ?groups - set ?res. ?tot b \<le> ?tot a"
  proof (intro ballI)
    fix a b assume a: "a \<in> set ?res" and b: "b \<in> set ?groups - set ?res"
    from b sub have "b \<in> set (srt ?groups)" by simp
    with split b have "b \<in> set (drop 10 (srt ?groups))"
      by (metis DiffD2 Un_iff set_append)
    moreover have "sorted_wrt (\<lambda>a b. ?tot b \<le> ?tot a) (?res @ drop 10 (srt ?groups))"
      using srt_sorted split by simp
    ultimately show "?tot b \<le> ?tot a"
      using a by (simp add: sorted_wrt_append)
  qed
  have "p_partner_name ` set ?groups = set (map p_partner_name ?groups)"
    by simp
  also have "\<dots> = (if obs then partner_name ` set (matching ds c y) else partner_name ` set ds)"
    unfolding partner_totals_names
    by (auto simp: categorical_index_def set_categories matching_def)
  finally have 6: "p_partner_name ` set ?groups =
      (if obs then partner_name ` set (matching ds c y) else partner_name ` set ds)" .
  from 0 1 2 3 4 5 6 show ?thesis by blast
qed

lemma partner_totals_spec_example:
  "partner_totals True spec_example ''Malaysia'' 2020 =
     [\<lparr>p_partner_name = ''PartnerA'', p_total_export = 100, p_total_import = Some 50,
       p_total_trade = Some 150\<rparr>,
      \<lparr>p_partner_name = ''PartnerB'', p_total_export = 200, p_total_import = Some 80,
       p_total_trade = Some 280\<rparr>]"
  by (simp add: partner_totals_def categories_def spec_example_def categorical_index_def
      groupby_sum_def merge_left_def)

lemma top_partners_spec_example:
  "update_top_partners True stable_sort_desc spec_example ''Malaysia'' 2020 =
     [\<lparr>p_partner_name = ''PartnerB'', p_total_export = 200, p_total_import = Some 80,
       p_total_trade = Some 280\<rparr>,
      \<lparr>p_partner_name = ''PartnerA'', p_total_export = 100, p_total_import = Some 50,
       p_total_trade = Some 150\<rparr>]"
  by (simp add: update_top_partners_def partner_totals_spec_example stable_sort_desc_def)

text \<open>On the specification's example, with a stable sort: PartnerB (280) before PartnerA (150).\<close>

theorem top_partners_top_ten_witness:
  "sort_values_desc stable_sort_desc
   \<and> update_top_partners True stable_sort_desc spec_example ''Malaysia'' 2020 =
     [\<lparr>p_partner_name = ''PartnerB'', p_total_export = 200, p_total_import = Some 80,
       p_total_trade = Some 280\<rparr>,
      \<lparr>p_partner_name = ''PartnerA'', p_total_export = 100, p_total_import = Some 50,
       p_total_trade = Some 150\<rparr>]
   \<and> length (update_top_partners True stable_sort_desc spec_example ''Malaysia'' 2020) =
       min 10 (length (partner_totals True spec_example ''Malaysia'' 2020))
   \<and> distinct (map p_partner_name
        (update_top_partners True stable_sort_desc spec_example ''Malaysia'' 2020))"
  using top_partners_top_ten [OF sort_values_desc_stable, of True spec_example "''Malaysia''" 2020]
    sort_values_desc_stable top_partners_spec_example
  by blast

section \<open>A filter that matches nothing\<close>

lemma partner_row_no_match:
  assumes "matching ds c y = []"
  shows "partner_row ds c y p =
     \<lparr>p_partner_name = p, p_total_export = 0, p_total_import = Some 0, p_total_trade = Some 0\<rparr>"
  using assms by (simp add: partner_row_def partner_export_def partner_import_def)

lemma partner_totals_no_match:
  assumes "matching ds c y = []"
  shows "partner_totals True ds c y = []"
    and "partner_totals False ds c y =
      map (\<lambda>p. \<lparr>p_partner_name = p, p_total_export = 0, p_total_import = Some 0,
                 p_total_trade = Some 0\<rparr>) (categories (map partner_name ds))"
  using assms by (simp_all add: partner_totals_rows categorical_index_def partner_row_no_match)

lemma sort_values_desc_Nil: "sort_values_desc srt \<Longrightarrow> srt [] = []"
  using sort_values_desc_length [of srt "[]"] by simp

lemma length_categories: "length (categories col) = card (set col)"
  using distinct_card [OF distinct_categories, of col] by (simp add: set_categories)

text \<open>
  C6 (as amended). When no record matches the (country, year) filter, nothing fails:
  \<open>kpis\<close> returns four zeros, the table of \<open>update_table\<close> is empty and \<open>chart_d\<close> draws no
  point and no line. \<open>update_top_partners\<close> returns an empty table when grouping keeps
  observed groups only; with \<^verbatim>\<open>observed=False\<close> it returns a zero row for each partner
  category of the whole table, up to 10 of them.
\<close>

theorem no_match_results:
  assumes "matching ds c y = []" and "sort_values_desc srt"
  shows "kpis ops ds c y = Inr (''0'', ''0'', ''0'', ''0'')
    \<and> fst (update_table ds c y) = []
    \<and> chart_d np_polyfit ds c y = Inr \<lparr>d_points = [], d_ols_fit = None\<rparr>
    \<and> update_top_partners True srt ds c y = []
    \<and> length (update_top_partners False srt ds c y) = min 10 (card (partner_name ` set ds))
    \<and> (\<forall>row \<in> set (update_top_partners False srt ds c y).
          p_partner_name row \<in> partner_name ` set ds \<and> p_total_export row = 0
          \<and> p_total_import row = Some 0 \<and> p_total_trade row = Some 0)"
proof -
  from assms(1) have empty: "filter (\<lambda>r. country r = c \<and> year r = y) ds = []"
    by (simp add: matching_def)
  have 1: "kpis ops ds c y = Inr (''0'', ''0'', ''0'', ''0'')"
    using assms(1) by (rule kpis_no_match)
  have 2: "fst (update_table ds c y) = []"
    by (simp add: update_table_def Let_def empty)
  have 3: "chart_d np_polyfit ds c y = Inr \<lparr>d_points = [], d_ols_fit = None\<rparr>"
    by (simp add: chart_d_def Let_def empty)
  have 4: "update_top_partners True srt ds c y = []"
    by (simp add: update_top_partners_def partner_totals_no_match(1) [OF assms(1)]
        sort_values_desc_Nil [OF assms(2)])
  have 5: "length (update_top_partners False srt ds c y) = min 10 (card (partner_name ` set ds))"
    by (simp add: update_top_partners_def sort_values_desc_length [OF assms(2)]
        partner_totals_no_match(2) [OF assms(1)] length_categories min.commute)
  have "set (update_top_partners False srt ds c y) \<subseteq> set (partner_totals False ds c y)"
    using assms(2) by (rule update_top_partners_subset)
  then have 6: "\<forall>row \<in> set (update_top_partners False srt ds c y).
          p_partner_name row \<in> partner_name ` set ds \<and> p_total_export row = 0
          \<and> p_total_import row = Some 0 \<and> p_total_trade row = Some 0"
    by (auto simp: partner_totals_no_match(2) [OF assms(1)] set_categories)
  from 1 2 3 4 5 6 show ?thesis by blast
qed

lemma no_match_spec_example: "matching spec_example ''Malaysia'' 2021 = []"
  by (simp add: matching_def spec_example_def)

text \<open>The specification's example has no record for 2021.\<close>

theorem no_match_results_witness:
  "matching spec_example ''Malaysia'' 2021 = []
   \<and> sort_values_desc stable_sort_desc
   \<and> (\<forall>ops. kpis ops spec_example ''Malaysia'' 2021 = Inr (''0'', ''0'', ''0'', ''0''))
   \<and> fst (update_table spec_example ''Malaysia'' 2021) = []
   \<and> update_top_partners True stable_sort_desc spec_example ''Malaysia'' 2021 = []"
  using no_match_results [OF no_match_spec_example sort_values_desc_stable]
    no_match_spec_example sort_values_desc_stable
  by blast

text \<open>
  C6 as stated fails for the top partners under \<^verbatim>\<open>observed=False\<close>: no record of the example
  matches (Malaysia, 2021), and the table returned has a zero row for PartnerA and one for
  PartnerB.
\<close>

theorem top_partners_no_match_counterexample:
  "matching spec_example ''Malaysia'' 2021 = []
   \<and> update_top_partners False stable_sort_desc spec_example ''Malaysia'' 2021 =
     [\<lparr>p_partner_name = ''PartnerA'', p_total_export = 0, p_total_import = Some 0,
       p_total_trade = Some 0\<rparr>,
      \<lparr>p_partner_name = ''PartnerB'', p_total_export = 0, p_total_import = Some 0,
       p_total_trade = Some 0\<rparr>]"
  by (simp add: no_match_spec_example update_top_partners_def
      partner_totals_no_match(2) [OF no_match_spec_example] stable_sort_desc_def)
    (simp add: categories_def spec_example_def)

section \<open>Chart A: the grouped totals\<close>





















section \<open>The filter defaults\<close>

text \<open>
  C9 (as amended). The default country is the literal "Malaysia", the first priority country
  and the first dropdown choice. The default year is \<open>YEAR_MAX\<close>: the larger of the table's
  greatest year and 2022. The slider's range \<open>[YEAR_MIN, YEAR_MAX]\<close> is the range of the
  table's years widened to include 2015 and 2022, so it holds every year of the table. On
  an empty table the year settings raise.
\<close>

theorem filter_defaults:
  "selected_country_default = hd priority
   \<and> selected_country_default = hd (COUNTRY_CHOICES ds)
   \<and> (ds = [] \<longrightarrow> selected_year_default ds = Inl ValueError)
   \<and> (ds \<noteq> [] \<longrightarrow>
        selected_year_default ds = Inr (max (Max (year ` set ds)) 2022)
        \<and> year_settings ds = Inr (min (Min (year ` set ds)) 2015, max (Max (year ` set ds)) 2022)
        \<and> (\<forall>r \<in> set ds. min (Min (year ` set ds)) 2015 \<le> year r
                          \<and> year r \<le> max (Max (year ` set ds)) 2022))"
proof (intro conjI impI)
  show "selected_country_default = hd priority"
    by (simp add: selected_country_default_def priority_def)
  show "selected_country_default = hd (COUNTRY_CHOICES ds)"
    by (simp add: selected_country_default_def COUNTRY_CHOICES_def priority_def)
  show "selected_year_default ds = Inl ValueError" if "ds = []"
    using that by (simp add: selected_year_default_def year_settings_def)
  show "selected_year_default ds = Inr (max (Max (year ` set ds)) 2022)" if "ds \<noteq> []"
    using that by (simp add: selected_year_default_def year_settings_def)
  show "year_settings ds = Inr (min (Min (year ` set ds)) 2015, max (Max (year ` set ds)) 2022)"
    if "ds \<noteq> []"
    using that by (simp add: year_settings_def)
  show "\<forall>r \<in> set ds. min (Min (year ` set ds)) 2015 \<le> year r
                          \<and> year r \<le> max (Max (year ` set ds)) 2022"
  proof
    fix r assume "r \<in> set ds"
    then have "Min (year ` set ds) \<le> year r" "year r \<le> Max (year ` set ds)"
      by simp_all
    then show "min (Min (year ` set ds)) 2015 \<le> year r \<and> year r \<le> max (Max (year ` set ds)) 2022"
      by linarith
  qed
qed

text \<open>The specification's example has the single year 2020: the range is 2015 to 2022.\<close>

theorem filter_defaults_witness:
  "spec_example \<noteq> []
   \<and> selected_country_default = ''Malaysia''
   \<and> selected_year_default spec_example = Inr 2022
   \<and> year_settings spec_example = Inr (2015, 2022)"
proof -
  have ne: "spec_example \<noteq> []" by (simp add: spec_example_def)
  have y: "year ` set spec_example = {2020}" by (simp add: spec_example_def)
  from filter_defaults [of spec_example] ne
  have "selected_year_default spec_example = Inr (max (Max (year ` set spec_example)) 2022)"
    and "year_settings spec_example =
      Inr (min (Min (year ` set spec_example)) 2015, max (Max (year ` set spec_example)) 2022)"
    by blast+
  then show ?thesis
    using ne by (simp add: y selected_country_default_def)
qed

text \<open>
  C9 as stated fails: with a record of 2025 the default year is 2025, outside the interval
  from 2015 to 2022; and with 2019 as greatest year the default is 2022, not 2019.
\<close>

theorem selected_year_counterexample:
  "selected_year_default late_example = Inr 2025
   \<and> Max (year ` set early_example) = 2019
   \<and> selected_year_default early_example = Inr 2022"
  by (simp add: selected_year_default_def year_settings_def late_example_def early_example_def)

section \<open>The loader\<close>

lemma those_None: "None \<in> set xs \<Longrightarrow> those xs = None"
  by (induction xs) (auto split: option.splits)

text \<open>
  A complete row whose year is text survives \<open>dropna\<close>, which runs before the conversion; the
  conversion makes its year NaN, and the cast to integer raises.
\<close>

lemma load_text_year:
  assumes "r \<in> set (concat dfs)" "NA \<notin> set (cells r)" "f_year r = Text s"
  shows "load dfs = Inl IntCastingNaNError"
proof -
  from assms(1) have ne: "dfs \<noteq> []" by auto
  from assms(1,2) have "r \<in> set (dropna (concat dfs))"
    by (simp add: dropna_def)
  then have "None \<in> set (map (map_option int64_cast)
      (map (\<lambda>r. to_numeric_coerce (f_year r)) (dropna (concat dfs))))"
    using assms(3) by (force simp: image_iff)
  then have "astype_int (map (\<lambda>r. to_numeric_coerce (f_year r)) (dropna (concat dfs)))
      = Inl IntCastingNaNError"
    unfolding astype_int_def by (simp only: those_None option.case)
  with ne show ?thesis
    by (simp add: load_def Let_def)
qed

text \<open>When the load succeeds, no field of a loaded row is missing.\<close>

lemma load_complete_rows:
  assumes "load dfs = Inr rows" "row \<in> set rows"
  shows "NA \<notin> {l_country row, l_country_code row, l_partner_name row, l_partner_name_code row,
                l_export_USD row, l_import_USD row, l_trade_balance_USD row}"
proof -
  let ?data = "dropna (concat dfs)"
  from assms(1) obtain years where
    rows: "rows = map (\<lambda>(r, y).
                     \<lparr>l_country = f_country r, l_country_code = f_country_code r,
                      l_partner_name = f_partner_name r,
                      l_partner_name_code = f_partner_name_code r, l_year = y,
                      l_export_USD = f_export_USD r, l_import_USD = f_import_USD r,
                      l_trade_balance_USD = f_trade_balance_USD r\<rparr>) (zip ?data years)"
    by (auto simp: load_def Let_def split: if_splits sum.splits)
  with assms(2) obtain r y where r: "(r, y) \<in> set (zip ?data years)"
    and row: "row = \<lparr>l_country = f_country r, l_country_code = f_country_code r,
                      l_partner_name = f_partner_name r,
                      l_partner_name_code = f_partner_name_code r, l_year = y,
                      l_export_USD = f_export_USD r, l_import_USD = f_import_USD r,
                      l_trade_balance_USD = f_trade_balance_USD r\<rparr>"
    by auto
  from r have "r \<in> set ?data" by (rule set_zip_leftD)
  then have "NA \<notin> set (cells r)" by (simp add: dropna_def)
  then show ?thesis
    by (simp add: row cells_def)
qed

text \<open>
  C3: the loader does fail on a year that is not a number. One file, one row, every field
  present, the year "abc": the load ends in \<open>IntCastingNaNError\<close>.
\<close>

theorem load_fails_on_text_year:
  "load [text_year_file] = Inl IntCastingNaNError"
  by (simp add: load_def text_year_file_def dropna_def cells_def astype_int_def)

section \<open>Chart D: the fitted line\<close>








text \<open>
  C10: the fit is not total. Two records with export 0 and imports 1 and 2: the column of
  abscissae has norm 0, the scaling inside \<^verbatim>\<open>np.polyfit\<close> divides by it, and the callback
  ends in \<open>LinAlgError\<close> instead of a figure.
\<close>

theorem chart_d_zero_export_fails:
  "length (matching zero_export_example ''Malaysia'' 2020) = 2
   \<and> chart_d (polyfit1 lstsq) zero_export_example ''Malaysia'' 2020 = Inl LinAlgError"
  by (simp add: matching_def zero_export_example_def polyfit1_def chart_d_def Let_def)

end
